theory Spec2Isabelle
  imports Complex_Main "HOL-Library.Word"
begin

section \<open>Python values that reach the handler\<close>

text \<open>
  A Python float is an IEEE double. Only its order against zero and its maximum are used by
  the code, so a finite float is identified with the real number it denotes, and the three
  special values are kept apart. Decimal literals are written as the source writes them.
\<close>

datatype pyfloat = Fin real | PosInf | NegInf | NaN

text \<open>
  What \<open>request.get_json()\<close> can return: the value \<open>json.loads\<close> builds, or \<open>None\<close>.
  A JSON object is a \<open>dict\<close> with string keys, kept as an association list in insertion
  order; the keys of a dict are distinct, and lookup reads the first entry of a key.
\<close>

datatype pyval =
    PNone
  | PBool bool
  | PInt int
  | PFloat pyfloat
  | PStr string
  | PList "pyval list"
  | PDict "(string \<times> pyval) list"

datatype exn_class =
  ValueError | TypeError | OverflowError | IndexError | KeyError | AttributeError
  | OSError | HTTPException | OtherException

text \<open>An exception: its class and the text \<open>str(e)\<close> gives. A subclass counts as the
  listed class it derives from, as an \<open>except\<close> clause treats it.\<close>

datatype exn = Exn exn_class string

fun exn_cls :: "exn \<Rightarrow> exn_class" where
  "exn_cls (Exn c _) = c"

fun str_exn :: "exn \<Rightarrow> string" where
  "str_exn (Exn _ msg) = msg"

subsection \<open>Builtins the handler calls\<close>

text \<open>\<open>x <= 0\<close> and \<open>x > y\<close> on floats: every comparison with NaN is false.\<close>

fun le_zero :: "pyfloat \<Rightarrow> bool" where
  "le_zero (Fin r) = (r \<le> 0)"
| "le_zero PosInf = False"
| "le_zero NegInf = True"
| "le_zero NaN = False"

fun py_gt :: "pyfloat \<Rightarrow> pyfloat \<Rightarrow> bool" where
  "py_gt (Fin a) (Fin b) = (a > b)"
| "py_gt NaN _ = False"
| "py_gt _ NaN = False"
| "py_gt PosInf b = (b \<noteq> PosInf)"
| "py_gt NegInf _ = False"
| "py_gt (Fin _) PosInf = False"
| "py_gt (Fin _) NegInf = True"

text \<open>\<open>max(iterable)\<close>: keeps the first item and replaces it by each later item that is
  greater; an empty iterable raises \<open>ValueError\<close>.\<close>

fun max_from :: "pyfloat \<Rightarrow> pyfloat list \<Rightarrow> pyfloat" where
  "max_from m [] = m"
| "max_from m (x # xs) = max_from (if py_gt x m then x else m) xs"

definition py_max :: "pyfloat list \<Rightarrow> exn + pyfloat" where
  "py_max xs = (case xs of
      [] \<Rightarrow> Inl (Exn ValueError ''max() arg is an empty sequence'')
    | x # rest \<Rightarrow> Inr (max_from x rest))"

text \<open>Truth value of an object, as \<open>not data\<close> tests it.\<close>

fun py_truthy :: "pyval \<Rightarrow> bool" where
  "py_truthy PNone = False"
| "py_truthy (PBool b) = b"
| "py_truthy (PInt n) = (n \<noteq> 0)"
| "py_truthy (PFloat f) = (f \<noteq> Fin 0)"
| "py_truthy (PStr s) = (s \<noteq> [])"
| "py_truthy (PList xs) = (xs \<noteq> [])"
| "py_truthy (PDict kvs) = (kvs \<noteq> [])"

fun type_name :: "pyval \<Rightarrow> string" where
  "type_name PNone = ''NoneType''"
| "type_name (PBool _) = ''bool''"
| "type_name (PInt _) = ''int''"
| "type_name (PFloat _) = ''float''"
| "type_name (PStr _) = ''str''"
| "type_name (PList _) = ''list''"
| "type_name (PDict _) = ''dict''"

definition squote :: "string \<Rightarrow> string" where
  "squote s = [CHR 0x27] @ s @ [CHR 0x27]"

fun is_substr :: "string \<Rightarrow> string \<Rightarrow> bool" where
  "is_substr s [] = (s = [])"
| "is_substr s (c # cs) = (take (length s) (c # cs) = s \<or> is_substr s cs)"

text \<open>\<open>field in data\<close> for a string \<open>field\<close>: key membership in a dict, element membership
  in a list, substring test in a string, \<open>TypeError\<close> for an object that is not a container.\<close>

fun py_contains :: "pyval \<Rightarrow> string \<Rightarrow> exn + bool" where
  "py_contains (PDict kvs) field = Inr (field \<in> fst ` set kvs)"
| "py_contains (PList xs) field = Inr (PStr field \<in> set xs)"
| "py_contains (PStr s) field = Inr (is_substr field s)"
| "py_contains v field =
     Inl (Exn TypeError (''argument of type '' @ squote (type_name v) @ '' is not iterable''))"

text \<open>\<open>data[field]\<close> for a string \<open>field\<close>: only a dict can be subscripted by a string.\<close>

fun py_getitem :: "pyval \<Rightarrow> string \<Rightarrow> exn + pyval" where
  "py_getitem (PDict kvs) field = (case map_of kvs field of
      None \<Rightarrow> Inl (Exn KeyError (squote field))
    | Some v \<Rightarrow> Inr v)"
| "py_getitem (PList xs) field =
     Inl (Exn TypeError ''list indices must be integers or slices, not str'')"
| "py_getitem (PStr s) field =
     Inl (Exn TypeError (''string indices must be integers, not '' @ squote ''str''))"
| "py_getitem v field =
     Inl (Exn TypeError (squote (type_name v) @ '' object is not subscriptable''))"

text \<open>\<open>xs[i]\<close> on a list: a negative index counts from the end, out of range raises.\<close>

definition py_index :: "'a list \<Rightarrow> int \<Rightarrow> exn + 'a" where
  "py_index xs i =
     (if 0 \<le> i \<and> i < int (length xs) then Inr (xs ! nat i)
      else if i < 0 \<and> - int (length xs) \<le> i then Inr (xs ! nat (int (length xs) + i))
      else Inl (Exn IndexError ''list index out of range''))"

subsection \<open>The builtin float()\<close>

function bit_length :: "int \<Rightarrow> nat" where
  "bit_length n = (if n \<le> 0 then 0 else Suc (bit_length (n div 2)))"
  by pat_completeness auto
termination
  by (relation "measure nat") auto

declare bit_length.simps [simp del]

text \<open>A non-negative integer rounded to 53 significant bits, ties to even.\<close>

definition round53 :: "int \<Rightarrow> int" where
  "round53 a =
     (let e = bit_length a - 53
      in if e = 0 then a
         else let q = a div 2 ^ e; r = a mod 2 ^ e; h = 2 ^ (e - 1)
              in (if r > h \<or> (r = h \<and> odd q) then q + 1 else q) * 2 ^ e)"

text \<open>\<open>float(n)\<close> for an int: the nearest double, \<open>OverflowError\<close> when that is beyond
  the largest double.\<close>

definition float_of_int :: "int \<Rightarrow> exn + pyfloat" where
  "float_of_int n =
     (let a = round53 \<bar>n\<bar>
      in if a \<ge> 2 ^ 1024 then Inl (Exn OverflowError ''int too large to convert to float'')
         else Inr (Fin (of_int (sgn n * a))))"

text \<open>
  \<open>float(v)\<close>. The parser of float literals in strings is the interpreter's and is taken as
  the parameter \<open>sf\<close>: \<open>None\<close> where the string is not a float literal.
\<close>

fun py_float :: "(string \<Rightarrow> pyfloat option) \<Rightarrow> pyval \<Rightarrow> exn + pyfloat" where
  "py_float sf (PFloat f) = Inr f"
| "py_float sf (PInt n) = float_of_int n"
| "py_float sf (PBool b) = Inr (Fin (if b then 1 else 0))"
| "py_float sf (PStr s) = (case sf s of
      None \<Rightarrow> Inl (Exn ValueError (''could not convert string to float: '' @ squote s))
    | Some f \<Rightarrow> Inr f)"
| "py_float sf v =
     Inl (Exn TypeError (''float() argument must be a string or a real number, not ''
                          @ squote (type_name v)))"

section \<open>The server: backend/app.py\<close>

text \<open>
  The loaded artifact is an opaque object of which the handler calls \<open>predict\<close> and
  \<open>predict_proba\<close> on one row of four features, reading element \<open>[0]\<close> of the result.
  Either call may raise.
\<close>

record classifier =
  clf_predict :: "pyfloat list \<Rightarrow> exn + int"
  clf_predict_proba :: "pyfloat list \<Rightarrow> exn + pyfloat list"

text \<open>The module's global state: \<open>model\<close>, \<open>None\<close> until \<open>load_model\<close> succeeds.\<close>

record server =
  model :: "classifier option"

definition initial_server :: server where
  "initial_server = \<lparr>model = None\<rparr>"

definition IRIS_CLASSES :: "string list" where
  "IRIS_CLASSES = [''Setosa'', ''Versicolor'', ''Virginica'']"

text \<open>\<open>load_model\<close>, given what \<open>joblib.load(MODEL_PATH)\<close> does: any exception is reported
  and leaves the global as it was.\<close>

definition load_model :: "exn + classifier \<Rightarrow> server \<Rightarrow> bool \<times> server" where
  "load_model loaded s = (case loaded of
      Inr m \<Rightarrow> (True, s\<lparr>model := Some m\<rparr>)
    | Inl e \<Rightarrow> (False, s))"

text \<open>A response: the status code and the object given to \<open>jsonify\<close>.\<close>

record response =
  status_code :: nat
  json_body :: pyval

definition error_response :: "nat \<Rightarrow> string \<Rightarrow> response" where
  "error_response code msg = \<lparr>status_code = code, json_body = PDict [(''error'', PStr msg)]\<rparr>"

definition health :: "server \<Rightarrow> response" where
  "health s =
     (let model_status = (if model s \<noteq> None then ''loaded'' else ''not loaded'')
      in \<lparr>status_code = 200,
          json_body = PDict [(''status'', PStr ''healthy''),
                             (''model_status'', PStr model_status)]\<rparr>)"

definition required_fields :: "string list" where
  "required_fields = [''sepal_length'', ''sepal_width'', ''petal_length'', ''petal_width'']"

text \<open>The comprehension \<open>[field for field in required_fields if field not in data]\<close>.\<close>

fun missing_of :: "pyval \<Rightarrow> string list \<Rightarrow> exn + string list" where
  "missing_of data [] = Inr []"
| "missing_of data (field # rest) = (case py_contains data field of
      Inl e \<Rightarrow> Inl e
    | Inr present \<Rightarrow> (case missing_of data rest of
          Inl e \<Rightarrow> Inl e
        | Inr ms \<Rightarrow> Inr (if present then ms else field # ms)))"

text \<open>The list display \<open>[float(data['sepal_length']), ...]\<close>, evaluated left to right.\<close>

fun convert_fields :: "(string \<Rightarrow> pyfloat option) \<Rightarrow> pyval \<Rightarrow> string list \<Rightarrow> exn + pyfloat list"
where
  "convert_fields sf data [] = Inr []"
| "convert_fields sf data (field # rest) = (case py_getitem data field of
      Inl e \<Rightarrow> Inl e
    | Inr v \<Rightarrow> (case py_float sf v of
          Inl e \<Rightarrow> Inl e
        | Inr f \<Rightarrow> (case convert_fields sf data rest of
              Inl e \<Rightarrow> Inl e
            | Inr fs \<Rightarrow> Inr (f # fs))))"

text \<open>\<open>repr\<close> of a list of strings that hold no quote or escape, as the f-string prints
  \<open>missing_fields\<close>.\<close>

fun join_comma :: "string list \<Rightarrow> string" where
  "join_comma [] = []"
| "join_comma [s] = s"
| "join_comma (s # t # rest) = s @ '', '' @ join_comma (t # rest)"

definition repr_str_list :: "string list \<Rightarrow> string" where
  "repr_str_list xs = ''['' @ join_comma (map squote xs) @ '']''"

definition missing_response :: "string list \<Rightarrow> response" where
  "missing_response missing_fields =
     \<lparr>status_code = 400,
      json_body = PDict [(''error'', PStr (''Missing required fields: ''
                                              @ repr_str_list missing_fields)),
                         (''required_fields'', PList (map PStr required_fields))]\<rparr>"

text \<open>The confidence: \<open>float(max(model.predict_proba(input_array)[0]))\<close>, and \<open>None\<close>
  when anything in that raises.\<close>

definition confidence_of :: "classifier \<Rightarrow> pyfloat list \<Rightarrow> pyfloat option" where
  "confidence_of m features = (case clf_predict_proba m features of
      Inl e \<Rightarrow> None
    | Inr probabilities \<Rightarrow> (case py_max probabilities of
          Inl e \<Rightarrow> None
        | Inr c \<Rightarrow> Some c))"

definition success_response :: "string \<Rightarrow> int \<Rightarrow> pyfloat option \<Rightarrow> pyfloat list \<Rightarrow> response"
where
  "success_response prediction_class prediction_idx confidence features =
     \<lparr>status_code = 200,
      json_body = PDict
        [(''prediction'', PStr prediction_class),
         (''prediction_index'', PInt prediction_idx),
         (''confidence'', (case confidence of None \<Rightarrow> PNone | Some c \<Rightarrow> PFloat c)),
         (''input_data'', PDict [(''sepal_length'', PFloat (features ! 0)),
                                   (''sepal_width'', PFloat (features ! 1)),
                                   (''petal_length'', PFloat (features ! 2)),
                                   (''petal_width'', PFloat (features ! 3))]),
         (''all_classes'', PList (map PStr IRIS_CLASSES))]\<rparr>"

text \<open>Lines 119 to 148: classification of a validated feature vector.\<close>

definition classify :: "classifier \<Rightarrow> pyfloat list \<Rightarrow> exn + response" where
  "classify m features = (case clf_predict m features of
      Inl e \<Rightarrow> Inl e
    | Inr prediction_idx \<Rightarrow> (case py_index IRIS_CLASSES prediction_idx of
          Inl e \<Rightarrow> Inl e
        | Inr prediction_class \<Rightarrow>
            Inr (success_response prediction_class prediction_idx
                   (confidence_of m features) features)))"

text \<open>
  The body of the outer \<open>try\<close> of \<open>predict\<close>. \<open>req\<close> is what \<open>request.get_json()\<close> does for
  the request: it raises or returns the parsed payload. \<open>Inl\<close> is an exception that leaves
  the block.
\<close>

definition predict_try ::
  "(string \<Rightarrow> pyfloat option) \<Rightarrow> server \<Rightarrow> exn + pyval \<Rightarrow> exn + response" where
  "predict_try sf s req = (case model s of
      None \<Rightarrow> Inr (error_response 500 ''Model not loaded. Please ensure the model file exists.'')
    | Some m \<Rightarrow> (case req of
          Inl e \<Rightarrow> Inl e
        | Inr data \<Rightarrow>
            if \<not> py_truthy data then Inr (error_response 400 ''No JSON data provided'')
            else (case missing_of data required_fields of
                Inl e \<Rightarrow> Inl e
              | Inr missing_fields \<Rightarrow>
                  if missing_fields \<noteq> [] then Inr (missing_response missing_fields)
                  else (case convert_fields sf data required_fields of
                      Inl e \<Rightarrow>
                        if exn_cls e = ValueError \<or> exn_cls e = TypeError
                        then Inr (error_response 400 ''All input values must be valid numbers'')
                        else Inl e
                    | Inr features \<Rightarrow>
                        if list_ex le_zero features
                        then Inr (error_response 400 ''All measurements must be positive numbers'')
                        else classify m features))))"

text \<open>The handler: the outer \<open>except Exception\<close> turns every escaping exception into a 500.\<close>

definition predict :: "(string \<Rightarrow> pyfloat option) \<Rightarrow> server \<Rightarrow> exn + pyval \<Rightarrow> response" where
  "predict sf s req = (case predict_try sf s req of
      Inl e \<Rightarrow> error_response 500 (''Prediction failed: '' @ str_exn e)
    | Inr r \<Rightarrow> r)"

section \<open>The trainer: model/train.py\<close>

text \<open>
  \<open>train_iris_model\<close> is a straight line of library calls with no \<open>try\<close>: an exception
  of any call leaves the function. What the library calls do is a parameter of the model:
  \<^item> \<open>fit_outcome\<close>: loading the dataset, the split and \<open>model.fit\<close> (lines 17 to 37);
  \<^item> \<open>report_outcome\<close>: prediction on the test set, accuracy and the report (lines 40 to 48);
  \<^item> \<open>serialize\<close>: the bytes \<open>joblib.dump\<close> writes for an object when nothing fails;
  \<^item> \<open>dump_fault\<close>: whether \<open>joblib.dump\<close> raises, and if so after how many bytes had
    reached the file (\<open>None\<close>: before the file was opened);
  \<^item> \<open>deserialize\<close>: what \<open>joblib.load\<close> makes of a file's bytes.
\<close>

type_synonym byte = "8 word"

type_synonym fs = "string \<rightharpoonup> byte list"

record trainer_env =
  fit_outcome :: "exn + classifier"
  report_outcome :: "classifier \<Rightarrow> exn option"
  serialize :: "classifier \<Rightarrow> byte list"
  dump_fault :: "(exn \<times> nat option) option"
  deserialize :: "byte list \<Rightarrow> exn + classifier"

text \<open>\<open>joblib.dump(value, filename)\<close> opens the named file for writing and pickles into it.\<close>

definition joblib_dump ::
  "trainer_env \<Rightarrow> classifier \<Rightarrow> string \<Rightarrow> fs \<Rightarrow> exn option \<times> fs" where
  "joblib_dump env m filename files = (case dump_fault env of
      None \<Rightarrow> (None, files(filename \<mapsto> serialize env m))
    | Some (e, None) \<Rightarrow> (Some e, files)
    | Some (e, Some k) \<Rightarrow> (Some e, files(filename \<mapsto> take k (serialize env m))))"

definition joblib_load :: "trainer_env \<Rightarrow> string \<Rightarrow> fs \<Rightarrow> exn + classifier" where
  "joblib_load env filename files = (case files filename of
      None \<Rightarrow> Inl (Exn OSError (''[Errno 2] No such file or directory: '' @ squote filename))
    | Some bytes \<Rightarrow> deserialize env bytes)"

text \<open>Decimal digits of a number, for the text of an exception.\<close>

function show_nat :: "nat \<Rightarrow> string" where
  "show_nat n = (if n < 10 then [''0123456789'' ! n]
                 else show_nat (n div 10) @ [''0123456789'' ! (n mod 10)])"
  by pat_completeness auto
termination
  by (relation "measure id") auto

declare show_nat.simps [simp del]

definition show_int :: "int \<Rightarrow> string" where
  "show_int i = (if i < 0 then ''-'' @ show_nat (nat (- i)) else show_nat (nat i))"

text \<open>\<open>a[i]\<close> on a one-dimensional numpy array: as on a list, with numpy's message.\<close>

definition np_index :: "'a list \<Rightarrow> int \<Rightarrow> exn + 'a" where
  "np_index xs i =
     (if 0 \<le> i \<and> i < int (length xs) then Inr (xs ! nat i)
      else if i < 0 \<and> - int (length xs) \<le> i then Inr (xs ! nat (int (length xs) + i))
      else Inl (Exn IndexError (''index '' @ show_int i @ '' is out of bounds for axis 0 with size ''
                                 @ show_nat (length xs))))"

text \<open>\<open>iris.target_names\<close>, in the order line 19 of train.py records.\<close>

definition target_names :: "string list" where
  "target_names = [''setosa'', ''versicolor'', ''virginica'']"

definition sample_data :: "pyfloat list" where
  "sample_data = [Fin 5.1, Fin 3.5, Fin 1.4, Fin 0.2]"

definition model_filename :: string where
  "model_filename = ''iris_model.pkl''"

text \<open>Lines 60 to 62: the reloaded model classifies the sample, and the class is named.\<close>

definition self_check :: "classifier \<Rightarrow> exn + string" where
  "self_check loaded_model = (case clf_predict loaded_model sample_data of
      Inl e \<Rightarrow> Inl e
    | Inr prediction \<Rightarrow> np_index target_names prediction)"

text \<open>
  The run, from a file system: \<open>Inl e\<close> when the exception \<open>e\<close> ended it, \<open>Inr c\<close> when it
  printed the sample's class \<open>c\<close> and that training completed successfully.
\<close>

definition train_iris_model :: "trainer_env \<Rightarrow> fs \<Rightarrow> (exn + string) \<times> fs" where
  "train_iris_model env files = (case fit_outcome env of
      Inl e \<Rightarrow> (Inl e, files)
    | Inr m \<Rightarrow> (case report_outcome env m of
          Some e \<Rightarrow> (Inl e, files)
        | None \<Rightarrow> (case joblib_dump env m model_filename files of
              (Some e, files') \<Rightarrow> (Inl e, files')
            | (None, files') \<Rightarrow> (case joblib_load env model_filename files' of
                  Inl e \<Rightarrow> (Inl e, files')
                | Inr loaded_model \<Rightarrow> (self_check loaded_model, files')))))"

section \<open>Concrete instances for the examples\<close>

text \<open>An instance of the string parser: it agrees with \<open>float()\<close> on the literals listed
  and on strings that are no float literal, which is all the examples give it.\<close>

definition literal_parser :: "string \<Rightarrow> pyfloat option" where
  "literal_parser s =
     (if s = ''5.1'' then Some (Fin 5.1)
      else if s = ''0'' then Some (Fin 0)
      else None)"

text \<open>A classifier like the one train.py fits (an \<open>SVC\<close> without probability estimates),
  answering class 0, and one that also estimates probabilities.\<close>

definition plain_clf :: classifier where
  "plain_clf =
     \<lparr>clf_predict = (\<lambda>features. Inr 0),
      clf_predict_proba = (\<lambda>features. Inl (Exn AttributeError
         ''predict_proba is not available when probability=False''))\<rparr>"

definition proba_clf :: classifier where
  "proba_clf =
     \<lparr>clf_predict = (\<lambda>features. Inr 0),
      clf_predict_proba = (\<lambda>features. Inr [Fin 0.9, Fin 0.07, Fin 0.03])\<rparr>"

text \<open>An integer a JSON body can spell out (a one and 400 zeros) and no double can hold.\<close>

definition beyond_double :: int where
  "beyond_double = 10 ^ 400"

text \<open>Environments for the trainer: the artifact is four bytes long; in the first the
  library calls all succeed, in the others one of them raises.\<close>

definition pickled :: "byte list" where
  "pickled = [0x80, 0x04, 0x95, 0x2E]"

definition sound_env :: trainer_env where
  "sound_env =
     \<lparr>fit_outcome = Inr plain_clf,
      report_outcome = (\<lambda>m. None),
      serialize = (\<lambda>m. pickled),
      dump_fault = None,
      deserialize = (\<lambda>bytes. if bytes = pickled then Inr plain_clf
                               else Inl (Exn OtherException ''pickle data was truncated''))\<rparr>"

definition disk_full :: exn where
  "disk_full = Exn OSError ''[Errno 28] No space left on device''"

definition no_permission :: exn where
  "no_permission = Exn OSError (''[Errno 13] Permission denied: '' @ squote ''iris_model.pkl'')"

definition fit_failed :: exn where
  "fit_failed = Exn ValueError ''The number of classes has to be greater than one; got 1 class''"

definition full_disk_env :: trainer_env where
  "full_disk_env = sound_env\<lparr>dump_fault := Some (disk_full, Some 2)\<rparr>"

definition read_only_env :: trainer_env where
  "read_only_env = sound_env\<lparr>dump_fault := Some (no_permission, None)\<rparr>"

definition no_fit_env :: trainer_env where
  "no_fit_env = sound_env\<lparr>fit_outcome := Inl fit_failed\<rparr>"





section \<open>Facts about the builtins and the validation steps\<close>

text \<open>\<open>bit_length\<close> brackets its argument between two powers of two, so every integer
  from \<open>2 ^ 1024\<close> on is too large for \<open>float()\<close>, and one below \<open>2 ^ 53\<close> is converted exactly.\<close>

lemma bit_length_lower: "0 < n \<Longrightarrow> 2 ^ (bit_length n - 1) \<le> n"
proof (induction n rule: bit_length.induct)
  case (1 n)
  show ?case
  proof (cases "n div 2 = 0")
    case True
    with "1.prems" have "n = 1" by simp
    then show ?thesis
      by (simp add: bit_length.simps)
  next
    case False
    with "1.prems" have pos: "0 < n div 2" by simp
    then have ih: "2 ^ (bit_length (n div 2) - 1) \<le> n div 2"
      using "1.IH" "1.prems" by simp
    have "bit_length (n div 2) > 0"
      using pos by (subst bit_length.simps) simp
    then have "bit_length n - 1 = Suc (bit_length (n div 2) - 1)"
      using "1.prems" by (subst bit_length.simps) simp
    then have "(2::int) ^ (bit_length n - 1) = 2 * 2 ^ (bit_length (n div 2) - 1)"
      by simp
    also have "\<dots> \<le> 2 * (n div 2)"
      using ih by simp
    also have "\<dots> \<le> n"
      by simp
    finally show ?thesis .
  qed
qed

lemma bit_length_upper: "0 \<le> n \<Longrightarrow> n < 2 ^ bit_length n"
proof (induction n rule: bit_length.induct)
  case (1 n)
  show ?case
  proof (cases "n \<le> 0")
    case True
    with "1.prems" show ?thesis by (simp add: bit_length.simps)
  next
    case False
    then have "n div 2 < 2 ^ bit_length (n div 2)"
      using "1.IH" by simp
    then have "n < 2 * 2 ^ bit_length (n div 2)"
      by linarith
    then show ?thesis
      using False by (subst bit_length.simps) simp
  qed
qed

lemma round53_overflow:
  assumes "2 ^ k \<le> a" "53 \<le> k"
  shows "2 ^ k \<le> round53 a"
proof -
  let ?b = "bit_length a"
  have "(0::int) < 2 ^ k"
    by simp
  with assms(1) have pos: "0 < a"
    by linarith
  have "a < 2 ^ ?b"
    using pos by (simp add: bit_length_upper)
  with assms(1) have "(2::int) ^ k < 2 ^ ?b"
    by linarith
  then have big: "k < ?b"
    by (simp add: power_strict_increasing_iff)
  define e where "e = ?b - 53"
  have e: "e \<noteq> 0" "?b - 1 = 52 + e" "k \<le> 52 + e"
    using big assms(2) by (simp_all add: e_def)
  have low: "2 ^ (52 + e) \<le> a"
    using bit_length_lower [OF pos] e by simp
  have "(2::int) ^ 52 = 2 ^ (52 + e) div 2 ^ e"
    by (simp add: power_add)
  also have "\<dots> \<le> a div 2 ^ e"
    using low by (simp add: zdiv_mono1)
  finally have q: "2 ^ 52 \<le> a div 2 ^ e" .
  have "(2::int) ^ k \<le> 2 ^ (52 + e)"
    using e(3) by (simp add: power_increasing)
  also have "\<dots> = 2 ^ 52 * 2 ^ e"
    by (simp add: power_add)
  also have "\<dots> \<le> (a div 2 ^ e) * 2 ^ e"
    using q by (simp add: mult_right_mono)
  finally have base: "2 ^ k \<le> (a div 2 ^ e) * 2 ^ e" .
  have "(a div 2 ^ e) * 2 ^ e \<le> (a div 2 ^ e + 1) * 2 ^ e"
    by (simp add: mult_right_mono)
  with base have up: "2 ^ k \<le> (a div 2 ^ e + 1) * 2 ^ e"
    by linarith
  have "round53 a = (a div 2 ^ e) * 2 ^ e \<or> round53 a = (a div 2 ^ e + 1) * 2 ^ e"
    using e(1) unfolding round53_def e_def [symmetric] Let_def by (simp only: if_False) auto
  with base up show ?thesis
    by auto
qed

lemma float_of_int_overflow:
  assumes "2 ^ 1024 \<le> \<bar>n\<bar>"
  shows "float_of_int n = Inl (Exn OverflowError ''int too large to convert to float'')"
proof -
  have "2 ^ 1024 \<le> round53 \<bar>n\<bar>"
    using assms by (rule round53_overflow) simp
  then show ?thesis
    by (simp add: float_of_int_def Let_def)
qed

lemma float_of_int_exact:
  assumes "\<bar>n\<bar> < 2 ^ 53"
  shows "float_of_int n = Inr (Fin (of_int n))"
proof -
  have "bit_length \<bar>n\<bar> \<le> 53"
  proof (cases "n = 0")
    case True
    then show ?thesis by (simp add: bit_length.simps)
  next
    case False
    then have "0 < \<bar>n\<bar>"
      by simp
    then have "2 ^ (bit_length \<bar>n\<bar> - 1) \<le> \<bar>n\<bar>"
      by (rule bit_length_lower)
    with assms have "(2::int) ^ (bit_length \<bar>n\<bar> - 1) < 2 ^ 53"
      by linarith
    then have "bit_length \<bar>n\<bar> - 1 < 53"
      by (simp only: power_strict_increasing_iff rel_simps)
    then show ?thesis by simp
  qed
  then have "round53 \<bar>n\<bar> = \<bar>n\<bar>"
    by (simp add: round53_def)
  moreover have "(2::int) ^ 53 < 2 ^ 1024"
    by simp
  then have "\<bar>n\<bar> < 2 ^ 1024"
    using assms by (rule less_trans [rotated])
  ultimately show ?thesis
    by (simp add: float_of_int_def Let_def mult_sgn_abs)
qed

lemma float_beyond_double:
  "float_of_int beyond_double = Inl (Exn OverflowError ''int too large to convert to float'')"
  by (rule float_of_int_overflow) (simp add: beyond_double_def)

lemma missing_of_dict:
  "missing_of (PDict kvs) names = Inr (filter (\<lambda>f. f \<notin> fst ` set kvs) names)"
  by (induction names) auto

lemma max_from_fold: "max_from (Fin a) (map Fin ps) = Fin (fold max ps a)"
proof (induction ps arbitrary: a)
  case Nil
  show ?case by simp
next
  case (Cons p ps)
  have "(if a < p then Fin p else Fin a) = Fin (max p a)"
    by (simp add: max_def)
  then show ?case
    using Cons [of "max p a"] by simp
qed


lemma py_max_Fin:
  assumes "ps \<noteq> []"
  shows "py_max (map Fin ps) = Inr (Fin (Max (set ps)))"
proof (cases ps)
  case Nil
  with assms show ?thesis by simp
next
  case (Cons p rest)
  have "Max (set (p # rest)) = fold max rest p"
    by (rule Max.set_eq_fold)
  then show ?thesis
    using Cons by (simp add: py_max_def max_from_fold)
qed

lemma convert_fields_dict:
  assumes "map_of kvs ''sepal_length'' = Some v1" "map_of kvs ''sepal_width'' = Some v2"
    "map_of kvs ''petal_length'' = Some v3" "map_of kvs ''petal_width'' = Some v4"
    "py_float sf v1 = Inr f1" "py_float sf v2 = Inr f2"
    "py_float sf v3 = Inr f3" "py_float sf v4 = Inr f4"
  shows "convert_fields sf (PDict kvs) required_fields = Inr [f1, f2, f3, f4]"
  using assms by (simp add: required_fields_def)

lemma missing_of_complete:
  assumes "map_of kvs ''sepal_length'' = Some v1" "map_of kvs ''sepal_width'' = Some v2"
    "map_of kvs ''petal_length'' = Some v3" "map_of kvs ''petal_width'' = Some v4"
  shows "missing_of (PDict kvs) required_fields = Inr []"
proof -
  have "\<And>f v. map_of kvs f = Some v \<Longrightarrow> f \<in> fst ` set kvs"
    by (metis map_of_SomeD fst_conv image_eqI)
  with assms show ?thesis
    by (simp add: missing_of_dict required_fields_def)
qed

text \<open>A dict that holds the four fields, all convertible, reaches the range check.\<close>

lemma predict_try_validated:
  assumes "model s = Some m"
    "map_of kvs ''sepal_length'' = Some v1" "map_of kvs ''sepal_width'' = Some v2"
    "map_of kvs ''petal_length'' = Some v3" "map_of kvs ''petal_width'' = Some v4"
    "py_float sf v1 = Inr f1" "py_float sf v2 = Inr f2"
    "py_float sf v3 = Inr f3" "py_float sf v4 = Inr f4"
  shows "predict_try sf s (Inr (PDict kvs)) =
           (if list_ex le_zero [f1, f2, f3, f4]
            then Inr (error_response 400 ''All measurements must be positive numbers'')
            else classify m [f1, f2, f3, f4])"
proof -
  have ne: "kvs \<noteq> []"
    using assms(2) by auto
  have ms: "missing_of (PDict kvs) required_fields = Inr []"
    using assms(2-5) by (rule missing_of_complete)
  have cv: "convert_fields sf (PDict kvs) required_fields = Inr [f1, f2, f3, f4]"
    using assms(2-9) by (rule convert_fields_dict)
  show ?thesis
    unfolding predict_try_def
    by (simp only: assms(1) ne ms cv option.case sum.case py_truthy.simps not_not
          if_True if_False simp_thms)
qed

text \<open>A response of the classification step is a success.\<close>

lemma classify_status: "classify m fs = Inr r \<Longrightarrow> status_code r = 200"
  by (auto simp: classify_def success_response_def split: sum.splits)

section \<open>The claims\<close>

text \<open>
  C1. The claim asks that the first failing check decides the response, check 4 (a field
  that is not convertible) answering 400 before check 5 (a field that is not positive).
  For the body with \<open>sepal_length\<close> \<open>-1\<close> and \<open>petal_width\<close> the integer \<open>10 ^ 400\<close> the
  conversion of \<open>petal_width\<close> raises \<open>OverflowError\<close> and the handler answers 500, the
  response of none of the five checks. The truthy payload \<open>5\<close>, which holds none of the
  required fields, is answered 500 as well, the membership test raising \<open>TypeError\<close>.
\<close>

theorem order_broken_by_escaping_exception:
  "predict literal_parser \<lparr>model = Some plain_clf\<rparr>
      (Inr (PDict [(''sepal_length'', PInt (- 1)), (''sepal_width'', PFloat (Fin 3.5)),
                   (''petal_length'', PFloat (Fin 1.4)), (''petal_width'', PInt beyond_double)])) =
     \<lparr>status_code = 500,
      json_body = PDict [(''error'', PStr ''Prediction failed: int too large to convert to float'')]\<rparr>
   \<and> py_float literal_parser (PInt beyond_double) =
     Inl (Exn OverflowError ''int too large to convert to float'')
   \<and> py_truthy (PInt 5)
   \<and> status_code (predict literal_parser \<lparr>model = Some plain_clf\<rparr> (Inr (PInt 5))) = 500"
proof -
  have "float_of_int (- 1) = Inr (Fin (- 1))"
    using float_of_int_exact [of "- 1"] by simp
  then show ?thesis
    by (simp add: predict_def predict_try_def required_fields_def float_beyond_double
          error_response_def)
qed




text \<open>
  C3. With a model loaded, a body that is a non-empty mapping lacking at least one of the
  four required fields is answered with status 400. The error message is
  "Missing required fields: [" and "]" around the required names, each in single quotes
  and separated by ", ", in the order of the required list, where a name is written if
  and only if it is not a key of the body. The response carries the full list of the four
  required names.
\<close>

theorem missing_fields_reported:
  assumes "model s = Some m" "kvs \<noteq> []"
    and "''sepal_length'' \<notin> fst ` set kvs \<or> ''sepal_width'' \<notin> fst ` set kvs
       \<or> ''petal_length'' \<notin> fst ` set kvs \<or> ''petal_width'' \<notin> fst ` set kvs"
  shows "predict sf s (Inr (PDict kvs)) =
           (let item = (\<lambda>name. if name \<in> fst ` set kvs then []
                                else '', '' @ [CHR 0x27] @ name @ [CHR 0x27])
            in \<lparr>status_code = 400,
                json_body = PDict
                  [(''error'', PStr (''Missing required fields: [''
                      @ drop 2 (item ''sepal_length'' @ item ''sepal_width''
                                @ item ''petal_length'' @ item ''petal_width'')
                      @ '']'')),
                   (''required_fields'',
                      PList [PStr ''sepal_length'', PStr ''sepal_width'',
                             PStr ''petal_length'', PStr ''petal_width''])]\<rparr>)"
proof -
  let ?ms = "filter (\<lambda>f. f \<notin> fst ` set kvs) required_fields"
  have "?ms \<noteq> []"
    using assms(3) by (auto simp: filter_empty_conv required_fields_def)
  then have "predict_try sf s (Inr (PDict kvs)) = Inr (missing_response ?ms)"
    using assms(1,2) by (simp add: predict_try_def missing_of_dict)
  then have "predict sf s (Inr (PDict kvs)) = missing_response ?ms"
    by (simp add: predict_def)
  then show ?thesis
    using assms(3)
    by (auto simp: missing_response_def required_fields_def repr_str_list_def squote_def Let_def)
qed

theorem missing_fields_reported_witness:
  "predict literal_parser \<lparr>model = Some plain_clf\<rparr>
       (Inr (PDict [(''sepal_length'', PFloat (Fin 5.1)), (''petal_length'', PFloat (Fin 1.4))])) =
     \<lparr>status_code = 400,
      json_body = PDict
        [(''error'', PStr (''Missing required fields: ['' @ [CHR 0x27] @ ''sepal_width''
                            @ [CHR 0x27] @ '', '' @ [CHR 0x27] @ ''petal_width'' @ [CHR 0x27]
                            @ '']'')),
         (''required_fields'',
            PList [PStr ''sepal_length'', PStr ''sepal_width'',
                   PStr ''petal_length'', PStr ''petal_width''])]\<rparr>"
  using missing_fields_reported [of "\<lparr>model = Some plain_clf\<rparr>" plain_clf
      "[(''sepal_length'', PFloat (Fin 5.1)), (''petal_length'', PFloat (Fin 1.4))]"
      literal_parser]
  by (simp add: Let_def)

text \<open>
  C4. The claim asks for status 400 and the generic message whenever a field is not
  convertible. For the body whose \<open>sepal_length\<close> is the integer \<open>10 ^ 400\<close> and whose other
  fields are valid, \<open>float()\<close> raises \<open>OverflowError\<close>, which the inner
  \<open>except (ValueError, TypeError)\<close> does not catch: the handler answers 500 with
  "Prediction failed: int too large to convert to float". A string that is no number in
  the same place gets the 400 with the generic message.
\<close>

theorem overflow_escapes_number_check:
  "predict literal_parser \<lparr>model = Some plain_clf\<rparr>
      (Inr (PDict [(''sepal_length'', PInt beyond_double), (''sepal_width'', PFloat (Fin 3.5)),
                   (''petal_length'', PFloat (Fin 1.4)), (''petal_width'', PFloat (Fin 0.2))])) =
     \<lparr>status_code = 500,
      json_body = PDict [(''error'', PStr ''Prediction failed: int too large to convert to float'')]\<rparr>
   \<and> py_float literal_parser (PInt beyond_double) =
     Inl (Exn OverflowError ''int too large to convert to float'')
   \<and> predict literal_parser \<lparr>model = Some plain_clf\<rparr>
      (Inr (PDict [(''sepal_length'', PStr ''abc''), (''sepal_width'', PFloat (Fin 3.5)),
                   (''petal_length'', PFloat (Fin 1.4)), (''petal_width'', PFloat (Fin 0.2))])) =
     \<lparr>status_code = 400,
      json_body = PDict [(''error'', PStr ''All input values must be valid numbers'')]\<rparr>"
  by (simp add: predict_def predict_try_def required_fields_def float_beyond_double
        literal_parser_def error_response_def)

text \<open>
  C5. With a model loaded and a body whose four fields convert to the real numbers
  \<open>x1\<close> to \<open>x4\<close>: if one of them is zero or negative, the response is 400 with the
  positivity message; if all four are strictly positive, however large, the range check
  lets the request through, the response is what the classification step gives, and its
  status is not 400.
\<close>

theorem positivity_check:
  assumes loaded: "model s = Some m"
    and present: "map_of kvs ''sepal_length'' = Some v1" "map_of kvs ''sepal_width'' = Some v2"
      "map_of kvs ''petal_length'' = Some v3" "map_of kvs ''petal_width'' = Some v4"
    and numeric: "py_float sf v1 = Inr (Fin x1)" "py_float sf v2 = Inr (Fin x2)"
      "py_float sf v3 = Inr (Fin x3)" "py_float sf v4 = Inr (Fin x4)"
  shows "(x1 \<le> 0 \<or> x2 \<le> 0 \<or> x3 \<le> 0 \<or> x4 \<le> 0 \<longrightarrow>
            predict sf s (Inr (PDict kvs)) =
              \<lparr>status_code = 400,
               json_body = PDict
                 [(''error'', PStr ''All measurements must be positive numbers'')]\<rparr>)
       \<and> (0 < x1 \<and> 0 < x2 \<and> 0 < x3 \<and> 0 < x4 \<longrightarrow>
            predict sf s (Inr (PDict kvs)) =
              (case classify m [Fin x1, Fin x2, Fin x3, Fin x4] of
                 Inl e \<Rightarrow>
                   \<lparr>status_code = 500,
                    json_body = PDict [(''error'', PStr (''Prediction failed: '' @ str_exn e))]\<rparr>
               | Inr r \<Rightarrow> r)
            \<and> status_code (predict sf s (Inr (PDict kvs))) \<noteq> 400)"
proof -
  let ?fs = "[Fin x1, Fin x2, Fin x3, Fin x4]"
  have step: "predict_try sf s (Inr (PDict kvs)) =
      (if list_ex le_zero ?fs
       then Inr (error_response 400 ''All measurements must be positive numbers'')
       else classify m ?fs)"
    using loaded present numeric by (rule predict_try_validated)
  have neg: "x1 \<le> 0 \<or> x2 \<le> 0 \<or> x3 \<le> 0 \<or> x4 \<le> 0 \<Longrightarrow>
      predict sf s (Inr (PDict kvs)) =
        \<lparr>status_code = 400,
         json_body = PDict [(''error'', PStr ''All measurements must be positive numbers'')]\<rparr>"
    using step by (auto simp: predict_def error_response_def)
  have pos: "predict sf s (Inr (PDict kvs)) =
        (case classify m ?fs of
           Inl e \<Rightarrow>
             \<lparr>status_code = 500,
              json_body = PDict [(''error'', PStr (''Prediction failed: '' @ str_exn e))]\<rparr>
         | Inr r \<Rightarrow> r)"
    if "0 < x1 \<and> 0 < x2 \<and> 0 < x3 \<and> 0 < x4"
    using step that
    by (cases "classify m ?fs") (simp_all add: predict_def error_response_def)
  have code: "status_code (case classify m ?fs of
           Inl e \<Rightarrow>
             \<lparr>status_code = 500,
              json_body = PDict [(''error'', PStr (''Prediction failed: '' @ str_exn e))]\<rparr>
         | Inr r \<Rightarrow> r) \<noteq> 400"
    by (cases "classify m ?fs") (auto dest: classify_status)
  show ?thesis
    using neg pos code by simp
qed

theorem positivity_check_witness:
  "predict literal_parser \<lparr>model = Some plain_clf\<rparr>
      (Inr (PDict [(''sepal_length'', PStr ''5.1''), (''sepal_width'', PStr ''0''),
                   (''petal_length'', PFloat (Fin 1.4)), (''petal_width'', PFloat (Fin 0.2))])) =
     \<lparr>status_code = 400,
      json_body = PDict [(''error'', PStr ''All measurements must be positive numbers'')]\<rparr>
   \<and> predict literal_parser \<lparr>model = Some plain_clf\<rparr>
      (Inr (PDict [(''sepal_length'', PFloat (Fin 5.1)), (''sepal_width'', PFloat (Fin 1000000)),
                   (''petal_length'', PFloat (Fin 1.4)), (''petal_width'', PFloat (Fin 0.2))])) =
     \<lparr>status_code = 200,
      json_body = PDict
        [(''prediction'', PStr ''Setosa''),
         (''prediction_index'', PInt 0),
         (''confidence'', PNone),
         (''input_data'', PDict [(''sepal_length'', PFloat (Fin 5.1)),
                                   (''sepal_width'', PFloat (Fin 1000000)),
                                   (''petal_length'', PFloat (Fin 1.4)),
                                   (''petal_width'', PFloat (Fin 0.2))]),
         (''all_classes'', PList [PStr ''Setosa'', PStr ''Versicolor'', PStr ''Virginica''])]\<rparr>"
  using positivity_check [of "\<lparr>model = Some plain_clf\<rparr>" plain_clf
      "[(''sepal_length'', PStr ''5.1''), (''sepal_width'', PStr ''0''),
        (''petal_length'', PFloat (Fin 1.4)), (''petal_width'', PFloat (Fin 0.2))]"
      "PStr ''5.1''" "PStr ''0''" "PFloat (Fin 1.4)" "PFloat (Fin 0.2)"
      literal_parser "5.1" 0 "1.4" "0.2"]
    positivity_check [of "\<lparr>model = Some plain_clf\<rparr>" plain_clf
      "[(''sepal_length'', PFloat (Fin 5.1)), (''sepal_width'', PFloat (Fin 1000000)),
        (''petal_length'', PFloat (Fin 1.4)), (''petal_width'', PFloat (Fin 0.2))]"
      "PFloat (Fin 5.1)" "PFloat (Fin 1000000)" "PFloat (Fin 1.4)" "PFloat (Fin 0.2)"
      literal_parser "5.1" 1000000 "1.4" "0.2"]
  by (simp add: plain_clf_def classify_def confidence_of_def py_index_def IRIS_CLASSES_def
        literal_parser_def success_response_def)

text \<open>
  C6. While no model is loaded, \<open>predict\<close> answers every request, whatever
  \<open>get_json\<close> would make of it, with status 500 and the model-not-loaded message, and
  \<open>health\<close> answers 200 with \<open>model_status\<close> "not loaded". With a model loaded \<open>health\<close>
  answers 200 with \<open>model_status\<close> "loaded". \<open>health\<close> answers 200 in every state. A failed
  \<open>load_model\<close> leaves the server not loaded, a successful one leaves it loaded.
\<close>

theorem health_and_refusal:
  "predict sf \<lparr>model = None\<rparr> req =
     \<lparr>status_code = 500,
      json_body = PDict [(''error'', PStr ''Model not loaded. Please ensure the model file exists.'')]\<rparr>
   \<and> health \<lparr>model = None\<rparr> =
     \<lparr>status_code = 200,
      json_body = PDict [(''status'', PStr ''healthy''), (''model_status'', PStr ''not loaded'')]\<rparr>
   \<and> health \<lparr>model = Some m\<rparr> =
     \<lparr>status_code = 200,
      json_body = PDict [(''status'', PStr ''healthy''), (''model_status'', PStr ''loaded'')]\<rparr>
   \<and> status_code (health s) = 200
   \<and> health (snd (load_model (Inl e) initial_server)) = health \<lparr>model = None\<rparr>
   \<and> health (snd (load_model (Inr m) s)) = health \<lparr>model = Some m\<rparr>"
  by (simp add: predict_def predict_try_def health_def load_model_def initial_server_def
        error_response_def)

text \<open>
  C7. For a valid request (four fields that convert to positive reals, a loaded classifier
  that answers a label index between 0 and 2): if \<open>predict_proba\<close> returns a non-empty
  vector of finite probabilities, the response is the success response and its
  \<open>confidence\<close> is the maximum entry of that vector; if \<open>predict_proba\<close> raises, as it
  does for a model without probability estimation, the response is the success response
  and its \<open>confidence\<close> is null.
\<close>

theorem confidence_is_max_probability:
  assumes loaded: "model s = Some m"
    and present: "map_of kvs ''sepal_length'' = Some v1" "map_of kvs ''sepal_width'' = Some v2"
      "map_of kvs ''petal_length'' = Some v3" "map_of kvs ''petal_width'' = Some v4"
    and numeric: "py_float sf v1 = Inr (Fin x1)" "py_float sf v2 = Inr (Fin x2)"
      "py_float sf v3 = Inr (Fin x3)" "py_float sf v4 = Inr (Fin x4)"
    and positive: "0 < x1" "0 < x2" "0 < x3" "0 < x4"
    and label: "clf_predict m [Fin x1, Fin x2, Fin x3, Fin x4] = Inr i" "0 \<le> i" "i \<le> 2"
  shows "(ps \<noteq> [] \<and> clf_predict_proba m [Fin x1, Fin x2, Fin x3, Fin x4] = Inr (map Fin ps) \<longrightarrow>
            predict sf s (Inr (PDict kvs)) =
              \<lparr>status_code = 200,
               json_body = PDict
                 [(''prediction'', PStr ([''Setosa'', ''Versicolor'', ''Virginica''] ! nat i)),
                  (''prediction_index'', PInt i),
                  (''confidence'', PFloat (Fin (Max (set ps)))),
                  (''input_data'', PDict [(''sepal_length'', PFloat (Fin x1)),
                                            (''sepal_width'', PFloat (Fin x2)),
                                            (''petal_length'', PFloat (Fin x3)),
                                            (''petal_width'', PFloat (Fin x4))]),
                  (''all_classes'',
                     PList [PStr ''Setosa'', PStr ''Versicolor'', PStr ''Virginica''])]\<rparr>)
       \<and> (clf_predict_proba m [Fin x1, Fin x2, Fin x3, Fin x4] = Inl e \<longrightarrow>
            predict sf s (Inr (PDict kvs)) =
              \<lparr>status_code = 200,
               json_body = PDict
                 [(''prediction'', PStr ([''Setosa'', ''Versicolor'', ''Virginica''] ! nat i)),
                  (''prediction_index'', PInt i),
                  (''confidence'', PNone),
                  (''input_data'', PDict [(''sepal_length'', PFloat (Fin x1)),
                                            (''sepal_width'', PFloat (Fin x2)),
                                            (''petal_length'', PFloat (Fin x3)),
                                            (''petal_width'', PFloat (Fin x4))]),
                  (''all_classes'',
                     PList [PStr ''Setosa'', PStr ''Versicolor'', PStr ''Virginica''])]\<rparr>)"
proof -
  let ?fs = "[Fin x1, Fin x2, Fin x3, Fin x4]"
  have range: "\<not> list_ex le_zero ?fs"
    using positive by simp
  have "predict_try sf s (Inr (PDict kvs)) = classify m ?fs"
    using predict_try_validated [OF loaded present numeric] range by simp
  moreover have "py_index IRIS_CLASSES i = Inr (IRIS_CLASSES ! nat i)"
    using label(2,3) by (simp add: py_index_def IRIS_CLASSES_def)
  ultimately have resp: "predict sf s (Inr (PDict kvs)) =
      success_response (IRIS_CLASSES ! nat i) i (confidence_of m ?fs) ?fs"
    using label(1) by (simp add: predict_def classify_def)
  show ?thesis
  proof (intro conjI impI)
    assume "ps \<noteq> [] \<and> clf_predict_proba m ?fs = Inr (map Fin ps)"
    then have "confidence_of m ?fs = Some (Fin (Max (set ps)))"
      by (simp add: confidence_of_def py_max_Fin)
    with resp show "predict sf s (Inr (PDict kvs)) =
        \<lparr>status_code = 200,
         json_body = PDict
           [(''prediction'', PStr ([''Setosa'', ''Versicolor'', ''Virginica''] ! nat i)),
            (''prediction_index'', PInt i),
            (''confidence'', PFloat (Fin (Max (set ps)))),
            (''input_data'', PDict [(''sepal_length'', PFloat (Fin x1)),
                                      (''sepal_width'', PFloat (Fin x2)),
                                      (''petal_length'', PFloat (Fin x3)),
                                      (''petal_width'', PFloat (Fin x4))]),
            (''all_classes'',
               PList [PStr ''Setosa'', PStr ''Versicolor'', PStr ''Virginica''])]\<rparr>"
      by (simp add: success_response_def IRIS_CLASSES_def)
  next
    assume "clf_predict_proba m ?fs = Inl e"
    then have "confidence_of m ?fs = None"
      by (simp add: confidence_of_def)
    with resp show "predict sf s (Inr (PDict kvs)) =
        \<lparr>status_code = 200,
         json_body = PDict
           [(''prediction'', PStr ([''Setosa'', ''Versicolor'', ''Virginica''] ! nat i)),
            (''prediction_index'', PInt i),
            (''confidence'', PNone),
            (''input_data'', PDict [(''sepal_length'', PFloat (Fin x1)),
                                      (''sepal_width'', PFloat (Fin x2)),
                                      (''petal_length'', PFloat (Fin x3)),
                                      (''petal_width'', PFloat (Fin x4))]),
            (''all_classes'',
               PList [PStr ''Setosa'', PStr ''Versicolor'', PStr ''Virginica''])]\<rparr>"
      by (simp add: success_response_def IRIS_CLASSES_def)
  qed
qed

theorem confidence_is_max_probability_witness:
  "predict literal_parser \<lparr>model = Some proba_clf\<rparr>
      (Inr (PDict [(''sepal_length'', PFloat (Fin 5.1)), (''sepal_width'', PFloat (Fin 3.5)),
                   (''petal_length'', PFloat (Fin 1.4)), (''petal_width'', PFloat (Fin 0.2))])) =
     \<lparr>status_code = 200,
      json_body = PDict
        [(''prediction'', PStr ''Setosa''),
         (''prediction_index'', PInt 0),
         (''confidence'', PFloat (Fin 0.9)),
         (''input_data'', PDict [(''sepal_length'', PFloat (Fin 5.1)),
                                   (''sepal_width'', PFloat (Fin 3.5)),
                                   (''petal_length'', PFloat (Fin 1.4)),
                                   (''petal_width'', PFloat (Fin 0.2))]),
         (''all_classes'', PList [PStr ''Setosa'', PStr ''Versicolor'', PStr ''Virginica''])]\<rparr>
   \<and> predict literal_parser \<lparr>model = Some plain_clf\<rparr>
      (Inr (PDict [(''sepal_length'', PFloat (Fin 5.1)), (''sepal_width'', PFloat (Fin 3.5)),
                   (''petal_length'', PFloat (Fin 1.4)), (''petal_width'', PFloat (Fin 0.2))])) =
     \<lparr>status_code = 200,
      json_body = PDict
        [(''prediction'', PStr ''Setosa''),
         (''prediction_index'', PInt 0),
         (''confidence'', PNone),
         (''input_data'', PDict [(''sepal_length'', PFloat (Fin 5.1)),
                                   (''sepal_width'', PFloat (Fin 3.5)),
                                   (''petal_length'', PFloat (Fin 1.4)),
                                   (''petal_width'', PFloat (Fin 0.2))]),
         (''all_classes'', PList [PStr ''Setosa'', PStr ''Versicolor'', PStr ''Virginica''])]\<rparr>"
  using confidence_is_max_probability [of "\<lparr>model = Some proba_clf\<rparr>" proba_clf
      "[(''sepal_length'', PFloat (Fin 5.1)), (''sepal_width'', PFloat (Fin 3.5)),
        (''petal_length'', PFloat (Fin 1.4)), (''petal_width'', PFloat (Fin 0.2))]"
      "PFloat (Fin 5.1)" "PFloat (Fin 3.5)" "PFloat (Fin 1.4)" "PFloat (Fin 0.2)"
      literal_parser "5.1" "3.5" "1.4" "0.2" 0 "[0.9, 0.07, 0.03]"]
    confidence_is_max_probability [of "\<lparr>model = Some plain_clf\<rparr>" plain_clf
      "[(''sepal_length'', PFloat (Fin 5.1)), (''sepal_width'', PFloat (Fin 3.5)),
        (''petal_length'', PFloat (Fin 1.4)), (''petal_width'', PFloat (Fin 0.2))]"
      "PFloat (Fin 5.1)" "PFloat (Fin 3.5)" "PFloat (Fin 1.4)" "PFloat (Fin 0.2)"
      literal_parser "5.1" "3.5" "1.4" "0.2" 0 _
      "Exn AttributeError ''predict_proba is not available when probability=False''"]
  by (simp add: proba_clf_def plain_clf_def)

text \<open>
  C8, as claimed, fails: the trainer hands the final artifact path to \<open>joblib.dump\<close>.
  When the dump raises after two of the four bytes of the artifact reached the file, the
  run aborts and the file holds those two bytes: it is neither absent nor complete.
\<close>

theorem partial_artifact_left:
  "fst (train_iris_model full_disk_env Map.empty) = Inl disk_full
   \<and> snd (train_iris_model full_disk_env Map.empty) ''iris_model.pkl'' = Some [0x80, 0x04]
   \<and> serialize full_disk_env plain_clf = [0x80, 0x04, 0x95, 0x2E]"
  by (simp add: train_iris_model_def joblib_dump_def full_disk_env_def sound_env_def pickled_def
        model_filename_def)

text \<open>
  C8, amended. An exception raised by fitting or by serialization ends the run with that
  exception, and success is not declared. When fitting fails, or serialization fails
  before the file is opened, the file system is left as it was. When serialization fails
  after \<open>k\<close> bytes, the artifact path holds those \<open>k\<close> bytes: the trainer writes to the
  final path and removes nothing.
\<close>

theorem failed_run_aborts:
  "(fit_outcome env = Inl e \<longrightarrow> train_iris_model env files = (Inl e, files))
   \<and> (fit_outcome env = Inr m \<and> report_outcome env m = None \<and> dump_fault env = Some (e, None) \<longrightarrow>
        train_iris_model env files = (Inl e, files))
   \<and> (fit_outcome env = Inr m \<and> report_outcome env m = None \<and> dump_fault env = Some (e, Some k) \<longrightarrow>
        train_iris_model env files =
          (Inl e, files(''iris_model.pkl'' \<mapsto> take k (serialize env m))))"
  by (simp add: train_iris_model_def joblib_dump_def model_filename_def)

theorem failed_run_aborts_witness:
  "train_iris_model no_fit_env Map.empty = (Inl fit_failed, Map.empty)
   \<and> train_iris_model read_only_env Map.empty = (Inl no_permission, Map.empty)
   \<and> train_iris_model full_disk_env Map.empty =
        (Inl disk_full, [''iris_model.pkl'' \<mapsto> [0x80, 0x04]])"
  using failed_run_aborts [of no_fit_env fit_failed Map.empty]
    failed_run_aborts [of read_only_env no_permission Map.empty plain_clf]
    failed_run_aborts [of full_disk_env disk_full Map.empty plain_clf 2]
  by (simp add: no_fit_env_def read_only_env_def full_disk_env_def sound_env_def pickled_def)




text \<open>
  C10. With a model loaded, the empty JSON object is answered with the 400
  "No JSON data provided" of the no-body check, which is not a missing-fields response;
  and whenever the handler answers with a missing-fields response, \<open>get_json\<close> returned a
  payload that is truthy, that is, none of the empty or zero values.
\<close>

theorem empty_object_is_no_data:
  "predict sf \<lparr>model = Some m\<rparr> (Inr (PDict [])) =
     \<lparr>status_code = 400, json_body = PDict [(''error'', PStr ''No JSON data provided'')]\<rparr>
   \<and> \<lparr>status_code = 400, json_body = PDict [(''error'', PStr ''No JSON data provided'')]\<rparr> \<noteq>
     \<lparr>status_code = 400,
      json_body = PDict
        [(''error'', PStr msg),
         (''required_fields'', PList [PStr ''sepal_length'', PStr ''sepal_width'',
                                       PStr ''petal_length'', PStr ''petal_width''])]\<rparr>
   \<and> (predict sf s req =
        \<lparr>status_code = 400,
         json_body = PDict
           [(''error'', PStr msg),
            (''required_fields'', PList [PStr ''sepal_length'', PStr ''sepal_width'',
                                          PStr ''petal_length'', PStr ''petal_width''])]\<rparr> \<longrightarrow>
        (\<exists>data. req = Inr data \<and> py_truthy data
           \<and> data \<noteq> PNone \<and> data \<noteq> PDict [] \<and> data \<noteq> PList [] \<and> data \<noteq> PStr []
           \<and> data \<noteq> PInt 0 \<and> data \<noteq> PFloat (Fin 0) \<and> data \<noteq> PBool False))"
proof (intro conjI impI)
  let ?missing = "\<lparr>status_code = 400,
         json_body = PDict
           [(''error'', PStr msg),
            (''required_fields'', PList [PStr ''sepal_length'', PStr ''sepal_width'',
                                          PStr ''petal_length'', PStr ''petal_width''])]\<rparr>"
  show "predict sf \<lparr>model = Some m\<rparr> (Inr (PDict [])) =
      \<lparr>status_code = 400, json_body = PDict [(''error'', PStr ''No JSON data provided'')]\<rparr>"
    by (simp add: predict_def predict_try_def error_response_def)
  show "\<lparr>status_code = 400, json_body = PDict [(''error'', PStr ''No JSON data provided'')]\<rparr>
      \<noteq> ?missing"
    by simp
  assume r: "predict sf s req = ?missing"
  have single: "error_response c w \<noteq> ?missing" for c w
    by (simp add: error_response_def)
  have ok: "classify m' fs \<noteq> Inr ?missing" for m' fs
    using classify_status [of m' fs ?missing] by auto
  show "\<exists>data. req = Inr data \<and> py_truthy data
      \<and> data \<noteq> PNone \<and> data \<noteq> PDict [] \<and> data \<noteq> PList [] \<and> data \<noteq> PStr []
      \<and> data \<noteq> PInt 0 \<and> data \<noteq> PFloat (Fin 0) \<and> data \<noteq> PBool False"
  proof (cases req)
    case (Inl e)
    with r single show ?thesis
      by (auto simp: predict_def predict_try_def split: option.splits)
  next
    case (Inr data)
    have "py_truthy data"
    proof (rule ccontr)
      assume "\<not> py_truthy data"
      with r Inr single show False
        by (auto simp: predict_def predict_try_def split: option.splits)
    qed
    with Inr show ?thesis by auto
  qed
qed

theorem empty_object_is_no_data_witness:
  "predict literal_parser \<lparr>model = Some plain_clf\<rparr> (Inr (PDict [(''sepal_length'', PInt 5)])) =
     \<lparr>status_code = 400,
      json_body = PDict
        [(''error'', PStr (''Missing required fields: ['' @ [CHR 0x27] @ ''sepal_width''
                            @ [CHR 0x27] @ '', '' @ [CHR 0x27] @ ''petal_length'' @ [CHR 0x27]
                            @ '', '' @ [CHR 0x27] @ ''petal_width'' @ [CHR 0x27] @ '']'')),
         (''required_fields'', PList [PStr ''sepal_length'', PStr ''sepal_width'',
                                       PStr ''petal_length'', PStr ''petal_width''])]\<rparr>
   \<and> py_truthy (PDict [(''sepal_length'', PInt 5)])"
  using empty_object_is_no_data [of literal_parser plain_clf _ "\<lparr>model = Some plain_clf\<rparr>"
      "Inr (PDict [(''sepal_length'', PInt 5)])"]
  by (simp add: predict_def predict_try_def required_fields_def missing_response_def
        repr_str_list_def squote_def)

end
